theory Spec2Isabelle
  imports Complex_Main
begin

section \<open>Data model\<close>

text \<open>
  The program is \<^verbatim>\<open>src/health_app_py.py\<close>, class \<^verbatim>\<open>HealthMonitor\<close>.
  A pandas DataFrame is a list of rows; a row carries the seven columns that
  \<^verbatim>\<open>generate_sample_data\<close> creates and the \<^verbatim>\<open>anomaly\<close> column that
  \<^verbatim>\<open>detect_anomalies\<close> attaches (\<open>None\<close> while the column is absent).
  Python's \<^verbatim>\<open>int\<close> is \<open>int\<close>. A float64 is idealised as a \<open>real\<close>: the
  arithmetic below is exact, without the rounding error of binary floating point.
  Timestamps are nanoseconds since the epoch, as pandas stores them.
\<close>

datatype error = IndexError | ValueError | OverflowError | OutOfBoundsDatetime

record sample =
  timestamp :: int
  heart_rate :: int
  blood_oxygen :: real
  steps :: int
  sleep_quality :: real
  stress_level :: real
  body_temperature :: real
  anomaly :: "bool option"

type_synonym dataset = "sample list"

text \<open>\<^verbatim>\<open>data.iloc[-1]\<close>: the last row; IndexError on a frame with no rows.\<close>

definition iloc_last :: "dataset \<Rightarrow> error + sample" where
  "iloc_last data = (case data of [] \<Rightarrow> Inl IndexError | _ # _ \<Rightarrow> Inr (last data))"

text \<open>\<^verbatim>\<open>Series.mean()\<close> of a column with at least one row.\<close>

definition mean :: "real list \<Rightarrow> real" where
  "mean xs = sum_list xs / of_nat (length xs)"

text \<open>
  Rounding to the nearest integer with ties to the even one, and to one decimal
  (\<^verbatim>\<open>round(x, 1)\<close>, \<^verbatim>\<open>ndarray.round(1)\<close>); \<^verbatim>\<open>int(x)\<close> and
  \<^verbatim>\<open>astype(int)\<close> truncate towards zero.
\<close>

definition rint :: "real \<Rightarrow> int" where
  "rint y = (let f = \<lfloor>y\<rfloor>; d = y - of_int f in
     if d < 1 / 2 then f else if 1 / 2 < d then f + 1 else if even f then f else f + 1)"

definition round1 :: "real \<Rightarrow> real" where
  "round1 x = of_int (rint (x * 10)) / 10"

definition py_int :: "real \<Rightarrow> int" where
  "py_int x = (if 0 \<le> x then \<lfloor>x\<rfloor> else \<lceil>x\<rceil>)"

section \<open>Health score\<close>

text \<open>The six sub-scores of \<^verbatim>\<open>calculate_health_score\<close>, named as its local variables.\<close>

definition hr_score :: "sample \<Rightarrow> real" where
  "hr_score latest = max 0 (100 - \<bar>of_int (heart_rate latest) - 70\<bar> * 2)"

definition oxygen_score :: "sample \<Rightarrow> real" where
  "oxygen_score latest = min 100 (blood_oxygen latest * 1.02)"

definition activity_score :: "sample \<Rightarrow> real" where
  "activity_score latest = min 100 (of_int (steps latest) / 10)"

definition sleep_score :: "sample \<Rightarrow> real" where
  "sleep_score latest = sleep_quality latest * 10"

definition stress_score :: "sample \<Rightarrow> real" where
  "stress_score latest = (10 - stress_level latest) * 10"

definition temp_score :: "sample \<Rightarrow> real" where
  "temp_score latest = max 0 (100 - \<bar>body_temperature latest - 98.6\<bar> * 10)"

definition weights :: "real list" where
  "weights = [0.2, 0.2, 0.15, 0.2, 0.15, 0.1]"

definition scores :: "sample \<Rightarrow> real list" where
  "scores latest = [hr_score latest, oxygen_score latest, activity_score latest,
     sleep_score latest, stress_score latest, temp_score latest]"

definition health_score :: "sample \<Rightarrow> real" where
  "health_score latest = sum_list (map (\<lambda>(w, s). w * s) (zip weights (scores latest)))"

definition calculate_health_score :: "dataset \<Rightarrow> error + real" where
  "calculate_health_score data =
     (case iloc_last data of
        Inl e \<Rightarrow> Inl e
      | Inr latest \<Rightarrow> Inr (round1 (health_score latest)))"





text \<open>The scenario sample of the specification.\<close>

definition scenario :: sample where
  "scenario = \<lparr>timestamp = 0, heart_rate = 70, blood_oxygen = 98, steps = 1000,
     sleep_quality = 8, stress_level = 3, body_temperature = 98.6, anomaly = None\<rparr>"

text \<open>The mean of the \<^verbatim>\<open>steps\<close> column.\<close>

definition mean_steps :: "dataset \<Rightarrow> real" where
  "mean_steps data = mean (map (\<lambda>r. of_int (steps r)) data)"

section \<open>Insights\<close>

text \<open>The ten messages; each starts with the UTF-8 bytes of its emoji.\<close>

definition msg_hr_elevated :: string where
  "msg_hr_elevated = [CHR 0xE2, CHR 0x9A, CHR 0xA0, CHR 0xEF, CHR 0xB8, CHR 0x8F] @
     '' Your heart rate is elevated. Consider relaxation techniques.''"

definition msg_hr_great :: string where
  "msg_hr_great = [CHR 0xF0, CHR 0x9F, CHR 0x92, CHR 0x99] @
     '' Your resting heart rate looks great!''"

definition msg_oxygen_low :: string where
  "msg_oxygen_low = [CHR 0xF0, CHR 0x9F, CHR 0xAB, CHR 0x81] @
     '' Blood oxygen is low. Consider consulting a healthcare provider.''"

definition msg_oxygen_healthy :: string where
  "msg_oxygen_healthy = [CHR 0xE2, CHR 0x9C, CHR 0x85] @
     '' Blood oxygen levels are healthy.''"

definition msg_less_active :: string where
  "msg_less_active = [CHR 0xF0, CHR 0x9F, CHR 0x9A, CHR 0xB6, CHR 0xE2, CHR 0x80, CHR 0x8D,
       CHR 0xE2, CHR 0x99, CHR 0x82, CHR 0xEF, CHR 0xB8, CHR 0x8F] @
     '' You'' @ [CHR 0x27] @ ''ve been less active today. Try a short walk!''"

definition msg_active :: string where
  "msg_active = [CHR 0xF0, CHR 0x9F, CHR 0x8F, CHR 0x83, CHR 0xE2, CHR 0x80, CHR 0x8D,
       CHR 0xE2, CHR 0x99, CHR 0x82, CHR 0xEF, CHR 0xB8, CHR 0x8F] @
     '' Great job staying active today!''"

definition msg_sleep_poor :: string where
  "msg_sleep_poor = [CHR 0xF0, CHR 0x9F, CHR 0x98, CHR 0xB4] @
     '' Sleep quality could be better. Try a consistent bedtime routine.''"

definition msg_sleep_excellent :: string where
  "msg_sleep_excellent = [CHR 0xF0, CHR 0x9F, CHR 0x8C, CHR 0x99] @
     '' Excellent sleep quality! Keep it up!''"

definition msg_stress_high :: string where
  "msg_stress_high = [CHR 0xF0, CHR 0x9F, CHR 0x98, CHR 0xB0] @
     '' Stress levels are high. Practice deep breathing or meditation.''"

definition msg_stress_low :: string where
  "msg_stress_low = [CHR 0xF0, CHR 0x9F, CHR 0x98, CHR 0x8C] @
     '' Great job managing stress!''"

definition generate_health_insights :: "dataset \<Rightarrow> error + string list" where
  "generate_health_insights data =
     (case iloc_last data of
        Inl e \<Rightarrow> Inl e
      | Inr latest_data \<Rightarrow>
          (let insights = [];
               avg_hr = mean (map (\<lambda>r. of_int (heart_rate r)) data);
               insights =
                 (if of_int (heart_rate latest_data) > avg_hr + 20
                    then insights @ [msg_hr_elevated]
                  else if of_int (heart_rate latest_data) < avg_hr - 15
                    then insights @ [msg_hr_great]
                  else insights);
               insights =
                 (if blood_oxygen latest_data < 95 then insights @ [msg_oxygen_low]
                  else insights @ [msg_oxygen_healthy]);
               avg_steps = mean (map (\<lambda>r. of_int (steps r)) data);
               insights =
                 (if of_int (steps latest_data) < avg_steps * 0.7
                    then insights @ [msg_less_active]
                  else if of_int (steps latest_data) > avg_steps * 1.3
                    then insights @ [msg_active]
                  else insights);
               insights =
                 (if sleep_quality latest_data < 6 then insights @ [msg_sleep_poor]
                  else if sleep_quality latest_data > 8 then insights @ [msg_sleep_excellent]
                  else insights);
               insights =
                 (if stress_level latest_data > 7 then insights @ [msg_stress_high]
                  else if stress_level latest_data < 4 then insights @ [msg_stress_low]
                  else insights)
           in Inr insights))"

section \<open>Signal generator\<close>

subsection \<open>The clock and the date range\<close>

text \<open>
  \<^verbatim>\<open>datetime.now()\<close> is an input of the model: \<open>now\<close>, a naive datetime in
  microseconds since the epoch. \<^verbatim>\<open>timedelta(days=days)\<close> raises OverflowError beyond
  999999999 days; a datetime lies between year 1 and year 9999, and subtracting a timedelta
  raises OverflowError outside that range.
\<close>

definition timedelta :: "int \<Rightarrow> error + int" where
  "timedelta days =
     (if \<bar>days\<bar> > 999999999 then Inl OverflowError else Inr (days * 86400000000))"

definition datetime_sub :: "int \<Rightarrow> int \<Rightarrow> error + int" where
  "datetime_sub d td =
     (let r = d - td in
      if r < - 62135596800000000 \<or> 253402300799999999 < r then Inl OverflowError
      else Inr r)"

text \<open>
  \<^verbatim>\<open>pd.date_range(start=start, end=end, periods=periods)\<close>: both ends become nanosecond
  timestamps (OutOfBoundsDatetime outside the signed 64-bit range), and the index is
  \<^verbatim>\<open>np.linspace(0, end - start, periods, dtype="int64") + start\<close>. linspace raises
  ValueError on a negative number of samples, gives no sample for 0 and the sample 0
  for 1; otherwise sample \<open>i\<close> is \<open>i * stop / (num - 1)\<close>, here the exact quotient, rounded
  down to an integer. Neither function compares \<open>start\<close> with \<open>end\<close>.
\<close>

definition in_ns_bounds :: "int \<Rightarrow> bool" where
  "in_ns_bounds t \<longleftrightarrow> - 9223372036854775807 \<le> t \<and> t \<le> 9223372036854775807"

definition linspace0 :: "int \<Rightarrow> int \<Rightarrow> error + int list" where
  "linspace0 stop num =
     (if num < 0 then Inl ValueError
      else if num = 1 then Inr [0]
      else Inr (map (\<lambda>i. (int i * stop) div (num - 1)) [0..<nat num]))"

definition date_range :: "int \<Rightarrow> int \<Rightarrow> int \<Rightarrow> error + int list" where
  "date_range start end periods =
     (if \<not> in_ns_bounds (start * 1000) \<or> \<not> in_ns_bounds (end * 1000)
        then Inl OutOfBoundsDatetime
      else case linspace0 (end * 1000 - start * 1000) periods of
             Inl e \<Rightarrow> Inl e
           | Inr i8values \<Rightarrow> Inr (map (\<lambda>v. v + start * 1000) i8values))"

text \<open>
  The clock readings and spans for which the three date computations raise nothing: the
  number of days fits a timedelta, and both ends of the window are nanosecond timestamps
  (which puts them between year 1 and year 9999 as well).
\<close>

definition dates_ok :: "int \<Rightarrow> int \<Rightarrow> bool" where
  "dates_ok now days \<longleftrightarrow>
     \<bar>days\<bar> \<le> 999999999 \<and> in_ns_bounds (now * 1000) \<and>
     in_ns_bounds ((now - days * 86400000000) * 1000)"

text \<open>\<^verbatim>\<open>t.hour\<close> of a nanosecond timestamp.\<close>

definition hour :: "int \<Rightarrow> int" where
  "hour t = (t div 3600000000000) mod 24"

subsection \<open>The random number generator\<close>

text \<open>
  The global generator of \<^verbatim>\<open>np.random\<close> is a parameter of the model: a state type
  \<open>'g\<close> and the five calls the program makes, each taking the state and returning its
  draws with the next state.
  \<^item> \<open>np_seed s\<close>: the state after \<^verbatim>\<open>np.random.seed(s)\<close>;
  \<^item> \<open>np_normal loc scale n\<close>: \<^verbatim>\<open>np.random.normal(loc, scale, n)\<close>;
  \<^item> \<open>np_choice a k\<close>: \<^verbatim>\<open>np.random.choice(a, size=k, replace=False)\<close> for an integer \<open>a\<close>;
  \<^item> \<open>np_choice_list xs k\<close>: \<^verbatim>\<open>np.random.choice(xs, size=k)\<close> for a list \<open>xs\<close>;
  \<^item> \<open>np_randint lo hi k\<close>: \<^verbatim>\<open>np.random.randint(lo, hi, size=k)\<close>.
\<close>

record 'g np_random =
  np_seed :: "int \<Rightarrow> 'g"
  np_normal :: "real \<Rightarrow> real \<Rightarrow> nat \<Rightarrow> 'g \<Rightarrow> real list \<times> 'g"
  np_choice :: "nat \<Rightarrow> nat \<Rightarrow> 'g \<Rightarrow> nat list \<times> 'g"
  np_choice_list :: "int list \<Rightarrow> nat \<Rightarrow> 'g \<Rightarrow> int list \<times> 'g"
  np_randint :: "int \<Rightarrow> int \<Rightarrow> nat \<Rightarrow> 'g \<Rightarrow> int list \<times> 'g"

text \<open>
  What numpy documents of these calls: each returns as many draws as asked for; a choice
  without replacement among \<open>a\<close> returns distinct indices below \<open>a\<close>; a choice from a
  list returns elements of the list; \<^verbatim>\<open>randint(lo, hi)\<close> returns integers from \<open>lo\<close>
  (inclusive) to \<open>hi\<close> (exclusive).
\<close>

definition rng_ok :: "'g np_random \<Rightarrow> bool" where
  "rng_ok np \<longleftrightarrow>
     (\<forall>loc scale n g. length (fst (np_normal np loc scale n g)) = n) \<and>
     (\<forall>a k g. k \<le> a \<longrightarrow>
        length (fst (np_choice np a k g)) = k \<and> distinct (fst (np_choice np a k g)) \<and>
        (\<forall>i \<in> set (fst (np_choice np a k g)). i < a)) \<and>
     (\<forall>xs k g. xs \<noteq> [] \<longrightarrow>
        length (fst (np_choice_list np xs k g)) = k \<and>
        set (fst (np_choice_list np xs k g)) \<subseteq> set xs) \<and>
     (\<forall>lo hi k g. lo < hi \<longrightarrow>
        length (fst (np_randint np lo hi k g)) = k \<and>
        (\<forall>d \<in> set (fst (np_randint np lo hi k g)). lo \<le> d \<and> d < hi))"

subsection \<open>Array operations\<close>

text \<open>\<^verbatim>\<open>np.clip(xs, lo, hi)\<close> is \<^verbatim>\<open>minimum(maximum(xs, lo), hi)\<close>.\<close>

definition np_clip :: "real list \<Rightarrow> real \<Rightarrow> real \<Rightarrow> real list" where
  "np_clip xs lo hi = map (\<lambda>x. min (max x lo) hi) xs"

text \<open>
  \<^verbatim>\<open>a[idx] += vals\<close> with an index array: the old values are read at \<open>idx\<close>
  (IndexError when an index is out of range), \<open>vals\<close> is added (a single value is
  broadcast, another length mismatch is a ValueError), and the sums are written back at
  \<open>idx\<close> in order.
\<close>

definition fancy_iadd :: "real list \<Rightarrow> nat list \<Rightarrow> real list \<Rightarrow> error + real list" where
  "fancy_iadd a idx vals =
     (let vals = (if length vals = 1 then replicate (length idx) (hd vals) else vals) in
      if list_ex (\<lambda>i. length a \<le> i) idx then Inl IndexError
      else if length vals \<noteq> length idx then Inl ValueError
      else Inr (fold (\<lambda>(i, v) acc. acc[i := v])
                  (zip idx (map2 (+) (map ((!) a) idx) vals)) a))"

text \<open>\<^verbatim>\<open>pd.DataFrame({...})\<close>: ValueError unless all columns have one length.\<close>

definition DataFrame ::
  "int list \<Rightarrow> int list \<Rightarrow> real list \<Rightarrow> int list \<Rightarrow> real list \<Rightarrow> real list \<Rightarrow> real list
     \<Rightarrow> error + dataset" where
  "DataFrame ts hr ox st sl sr bt =
     (if length hr = length ts \<and> length ox = length ts \<and> length st = length ts \<and>
         length sl = length ts \<and> length sr = length ts \<and> length bt = length ts
      then Inr (map (\<lambda>i. \<lparr>timestamp = ts ! i, heart_rate = hr ! i, blood_oxygen = ox ! i,
                  steps = st ! i, sleep_quality = sl ! i, stress_level = sr ! i,
                  body_temperature = bt ! i, anomaly = None\<rparr>) [0..<length ts])
      else Inl ValueError)"

subsection \<open>generate\_sample\_data\<close>

text \<open>
  The local variables of \<^verbatim>\<open>generate_sample_data\<close> when it reaches its
  \<^verbatim>\<open>return\<close>. \<open>v_heart_rate_clipped\<close> and \<open>v_blood_oxygen_clipped\<close> are
  \<^verbatim>\<open>heart_rate\<close> and \<^verbatim>\<open>blood_oxygen\<close> after \<^verbatim>\<open>np.clip\<close>, before the anomalies
  are introduced; \<open>v_heart_rate\<close> and \<open>v_blood_oxygen\<close> are the same arrays afterwards.
\<close>

record 'g locals =
  v_timestamps :: "int list"
  v_hours :: "int list"
  v_heart_rate_clipped :: "real list"
  v_blood_oxygen_clipped :: "real list"
  v_steps :: "real list"
  v_sleep_quality :: "real list"
  v_stress_level :: "real list"
  v_body_temp :: "real list"
  v_anomaly_indices :: "nat list"
  v_heart_rate :: "real list"
  v_blood_oxygen :: "real list"
  v_rng :: 'g

text \<open>
  The body of \<^verbatim>\<open>generate_sample_data\<close> up to the \<^verbatim>\<open>return\<close>. \<open>g\<close> is the state of
  the global generator when the function is called; the function has no seed parameter
  and seeds the generator with 42.
\<close>

definition generate_locals ::
  "'g np_random \<Rightarrow> int \<Rightarrow> int \<Rightarrow> int \<Rightarrow> 'g \<Rightarrow> error + 'g locals" where
  "generate_locals np now days samples_per_day g =
     (let total_samples = days * samples_per_day;
          end_date = now
      in case timedelta days of
           Inl e \<Rightarrow> Inl e
         | Inr td \<Rightarrow>
        (case datetime_sub end_date td of
           Inl e \<Rightarrow> Inl e
         | Inr start_date \<Rightarrow>
        (case date_range start_date end_date total_samples of
           Inl e \<Rightarrow> Inl e
         | Inr timestamps \<Rightarrow>
        (let n = nat total_samples;
             g = np_seed np 42;
             hours = map hour timestamps;
             base_hr = map (\<lambda>h. 70 + 10 * sin ((of_int h - 6) * pi / 12)) hours;
             (noise, g) = np_normal np 0 5 n g;
             heart_rate = np_clip (map2 (+) base_hr noise) 50 120;
             (noise, g) = np_normal np 0 1 n g;
             blood_oxygen = np_clip (map (\<lambda>z. 98 + z) noise) 85 100;
             step_base = map (\<lambda>h. 500 + 300 * sin ((of_int h - 12) * pi / 12)) hours;
             (noise, g) = np_normal np 0 100 n g;
             steps = map (max 0) (map2 (+) step_base noise);
             (noise, g) = np_normal np 0 0.5 n g;
             sleep_quality = np_clip
               (map2 (+) (map (\<lambda>h. 7 + 2 * sin ((of_int h - 2) * pi / 12)) hours) noise) 0 10;
             (noise, g) = np_normal np 0 1 n g;
             stress_level = np_clip (map2 (+) (map (\<lambda>q. 10 - q) sleep_quality) noise) 0 10;
             (noise, g) = np_normal np 0 0.5 n g;
             body_temp = np_clip (map (\<lambda>z. 98.6 + z) noise) 96 102;
             (anomaly_indices, g) =
                np_choice np n (nat (py_int (0.05 * of_int total_samples))) g;
             (shift, g) = np_choice_list np [- 20, 30] (length anomaly_indices) g
         in case fancy_iadd heart_rate anomaly_indices (map of_int shift) of
              Inl e \<Rightarrow> Inl e
            | Inr heart_rate' \<Rightarrow>
                (let (dec, g) = np_randint np 5 15 (length anomaly_indices) g
                 in case fancy_iadd blood_oxygen anomaly_indices
                           (map (\<lambda>d. - of_int d) dec) of
                      Inl e \<Rightarrow> Inl e
                    | Inr blood_oxygen' \<Rightarrow>
                        Inr \<lparr>v_timestamps = timestamps, v_hours = hours,
                             v_heart_rate_clipped = heart_rate,
                             v_blood_oxygen_clipped = blood_oxygen,
                             v_steps = steps, v_sleep_quality = sleep_quality,
                             v_stress_level = stress_level, v_body_temp = body_temp,
                             v_anomaly_indices = anomaly_indices,
                             v_heart_rate = heart_rate', v_blood_oxygen = blood_oxygen',
                             v_rng = g\<rparr>)))))"

text \<open>The \<^verbatim>\<open>return\<close>: the data frame, with the state the generator is left in.\<close>

definition generate_sample_data ::
  "'g np_random \<Rightarrow> int \<Rightarrow> int \<Rightarrow> int \<Rightarrow> 'g \<Rightarrow> error + (dataset \<times> 'g)" where
  "generate_sample_data np now days samples_per_day g =
     (case generate_locals np now days samples_per_day g of
        Inl e \<Rightarrow> Inl e
      | Inr L \<Rightarrow>
          (case DataFrame (v_timestamps L) (map py_int (v_heart_rate L))
                  (map round1 (v_blood_oxygen L)) (map py_int (v_steps L))
                  (map round1 (v_sleep_quality L)) (map round1 (v_stress_level L))
                  (map round1 (v_body_temp L)) of
             Inl e \<Rightarrow> Inl e
           | Inr df \<Rightarrow> Inr (df, v_rng L)))"

text \<open>
  A generator for concrete runs: it counts its draws, and every draw is the least random
  one the contract allows (the mean, the first indices, the last option, the largest
  integer below \<open>hi\<close>).
\<close>

definition np0 :: "nat np_random" where
  "np0 = \<lparr>np_seed = (\<lambda>s. nat s),
          np_normal = (\<lambda>loc scale n g. (replicate n loc, g + n)),
          np_choice = (\<lambda>a k g. ([0..<k], g + k)),
          np_choice_list = (\<lambda>xs k g. (replicate k (last xs), g + k)),
          np_randint = (\<lambda>lo hi k g. (replicate k (hi - 1), g + k))\<rparr>"

text \<open>A clock reading: 2025-11-04 12:00:00, in microseconds.\<close>

definition noon :: int where
  "noon = 1762257600000000"

section \<open>Anomaly detection\<close>

text \<open>
  The two scikit-learn estimators are parameters of the model.
  \<^verbatim>\<open>StandardScaler.fit_transform\<close> and \<^verbatim>\<open>IsolationForest.fit_predict\<close> fit anew on
  every call, and the forest, built with \<^verbatim>\<open>random_state=42\<close>, draws from a generator
  seeded afresh at each fit: each result is a function of the matrix passed (and of the
  constructor's \<^verbatim>\<open>contamination\<close> and \<^verbatim>\<open>random_state\<close>), or an error.
\<close>

record sklearn =
  fit_transform :: "real list list \<Rightarrow> error + real list list"
  fit_predict :: "real \<Rightarrow> int \<Rightarrow> real list list \<Rightarrow> error + int list"

definition features :: "sample \<Rightarrow> real list" where
  "features r = [of_int (heart_rate r), blood_oxygen r, of_int (steps r), sleep_quality r,
     stress_level r, body_temperature r]"

text \<open>
  \<^verbatim>\<open>data['anomaly'] = (anomalies == -1)\<close> sets the column, replacing one that is there;
  a label array of another length than the frame is a ValueError.
\<close>

definition detect_anomalies :: "sklearn \<Rightarrow> dataset \<Rightarrow> error + dataset" where
  "detect_anomalies sk data =
     (let X = map features data
      in case fit_transform sk X of
           Inl e \<Rightarrow> Inl e
         | Inr X_scaled \<Rightarrow>
        (case fit_predict sk 0.1 42 X_scaled of
           Inl e \<Rightarrow> Inl e
         | Inr anomalies \<Rightarrow>
             if length anomalies \<noteq> length data then Inl ValueError
             else Inr (map (\<lambda>(r, a). r\<lparr>anomaly := Some (a = - 1)\<rparr>) (zip data anomalies))))"

text \<open>
  Estimators for concrete runs: the scaler centres each column on its mean, the detector
  labels a row \<open>-1\<close> when its first feature is more than 50 above the column mean.
\<close>

definition column :: "real list list \<Rightarrow> nat \<Rightarrow> real list" where
  "column X j = map (\<lambda>row. row ! j) X"

definition sk0 :: sklearn where
  "sk0 = \<lparr>fit_transform = (\<lambda>X. if X = [] then Inl ValueError
             else Inr (map (\<lambda>row. map (\<lambda>j. row ! j - mean (column X j)) [0..<length row]) X)),
          fit_predict = (\<lambda>contamination random_state X.
             if X = [] then Inl ValueError
             else Inr (map (\<lambda>row. if hd row > 50 then - 1 else 1) X))\<rparr>"

section \<open>Properties of the health score\<close>

lemma rint_floor: "\<lfloor>y\<rfloor> \<le> rint y"
  by (simp add: rint_def Let_def)

lemma rint_ge: "of_int a \<le> y \<Longrightarrow> a \<le> rint y"
  using rint_floor[of y] le_floor_iff[of a y] by linarith

lemma rint_le: "y \<le> of_int b \<Longrightarrow> rint y \<le> b"
proof -
  assume h: "y \<le> of_int b"
  have f: "\<lfloor>y\<rfloor> \<le> b" using h by (simp add: floor_le_iff)
  have "y - of_int \<lfloor>y\<rfloor> \<ge> 1/2 \<Longrightarrow> \<lfloor>y\<rfloor> + 1 \<le> b"
  proof -
    assume "y - of_int \<lfloor>y\<rfloor> \<ge> 1/2"
    then have "of_int \<lfloor>y\<rfloor> < (of_int b :: real)" using h by linarith
    then show ?thesis by simp
  qed
  then show ?thesis using f unfolding rint_def Let_def by auto
qed

lemma round1_bounds:
  "of_int a \<le> x * 10 \<Longrightarrow> x * 10 \<le> of_int b \<Longrightarrow>
   of_int a / 10 \<le> round1 x \<and> round1 x \<le> of_int b / 10"
  unfolding round1_def using rint_ge[of a "x * 10"] rint_le[of "x * 10" b]
  by (simp add: divide_le_cancel)


lemma iloc_last_nonempty: "data \<noteq> [] \<Longrightarrow> iloc_last data = Inr (last data)"
  by (cases data) (simp_all add: iloc_last_def)










lemma score_last_only:
  "data \<noteq> [] \<Longrightarrow> calculate_health_score data = Inr (round1 (health_score (last data)))"
  by (simp add: calculate_health_score_def iloc_last_nonempty)






text \<open>
  C8, as stated, fails: no two non-empty datasets with equal latest samples and different
  mean step counts differ in the activity sub-score or in the score.
\<close>

theorem activity_population_relative_counterexample:
  "\<not> (\<exists>d1 d2. d1 \<noteq> [] \<and> d2 \<noteq> [] \<and> last d1 = last d2 \<and> mean_steps d1 \<noteq> mean_steps d2 \<and>
        (activity_score (last d1) \<noteq> activity_score (last d2) \<or>
         calculate_health_score d1 \<noteq> calculate_health_score d2))"
  by (auto simp: score_last_only)

text \<open>
  C8, amended. The score is computed from the latest sample alone: the activity sub-score
  is \<open>min 100 (steps / 10)\<close> of the latest sample, and two non-empty datasets with
  equal latest samples have equal scores, whatever their column means.
\<close>

theorem score_latest_only:
  assumes "d1 \<noteq> []" and "d2 \<noteq> []" and "last d1 = last d2"
  shows "activity_score (last d1) = min 100 (of_int (steps (last d2)) / 10) \<and>
         calculate_health_score d1 = calculate_health_score d2"
  using assms by (simp add: score_last_only activity_score_def)

theorem score_latest_only_witness:
  "[scenario] \<noteq> [] \<and> [scenario\<lparr>steps := 0\<rparr>, scenario] \<noteq> [] \<and>
   last [scenario] = last [scenario\<lparr>steps := 0\<rparr>, scenario] \<and>
   mean_steps [scenario] = 1000 \<and> mean_steps [scenario\<lparr>steps := 0\<rparr>, scenario] = 500 \<and>
   calculate_health_score [scenario] = calculate_health_score [scenario\<lparr>steps := 0\<rparr>, scenario]"
  using score_latest_only[of "[scenario]" "[scenario\<lparr>steps := 0\<rparr>, scenario]"]
  by (simp add: mean_steps_def mean_def scenario_def)

lemma insights_returns: "data \<noteq> [] \<Longrightarrow> \<exists>l. generate_health_insights data = Inr l"
  by (simp add: generate_health_insights_def iloc_last_nonempty Let_def)

text \<open>
  C10. On a dataset with no rows \<^verbatim>\<open>calculate_health_score\<close> and
  \<^verbatim>\<open>generate_health_insights\<close> fail with IndexError; each returns a result
  exactly when the dataset has a row.
\<close>

theorem empty_dataset_fails:
  "calculate_health_score [] = Inl IndexError \<and> generate_health_insights [] = Inl IndexError \<and>
   ((\<exists>v. calculate_health_score data = Inr v) \<longleftrightarrow> data \<noteq> []) \<and>
   ((\<exists>l. generate_health_insights data = Inr l) \<longleftrightarrow> data \<noteq> [])"
proof -
  have e: "calculate_health_score [] = Inl IndexError" "generate_health_insights [] = Inl IndexError"
    by (simp_all add: calculate_health_score_def generate_health_insights_def iloc_last_def)
  show ?thesis
  proof (cases "data = []")
    case True
    then show ?thesis using e by simp
  next
    case False
    then show ?thesis using e insights_returns[OF False] by (simp add: score_last_only)
  qed
qed

theorem empty_dataset_fails_witness:
  "calculate_health_score [] = Inl IndexError \<and> generate_health_insights [] = Inl IndexError \<and>
   (\<exists>v. calculate_health_score [scenario] = Inr v) \<and>
   (\<exists>l. generate_health_insights [scenario] = Inr l)"
  using empty_dataset_fails[of "[scenario]"] by simp

section \<open>Properties of the insights\<close>

lemmas msg_defs = msg_hr_elevated_def msg_hr_great_def msg_oxygen_low_def msg_oxygen_healthy_def
  msg_less_active_def msg_active_def msg_sleep_poor_def msg_sleep_excellent_def
  msg_stress_high_def msg_stress_low_def

lemma msgs_distinct:
  "distinct [msg_hr_elevated, msg_hr_great, msg_oxygen_low, msg_oxygen_healthy, msg_less_active,
     msg_active, msg_sleep_poor, msg_sleep_excellent, msg_stress_high, msg_stress_low]"
  by (simp add: msg_defs)

lemma insights_decompose:
  assumes "data \<noteq> []"
  shows "\<exists>hr ox act sl st.
     generate_health_insights data = Inr (hr @ ox @ act @ sl @ st) \<and>
     (hr = [] \<or> hr = [msg_hr_elevated] \<or> hr = [msg_hr_great]) \<and>
     ox = [if blood_oxygen (last data) < 95 then msg_oxygen_low else msg_oxygen_healthy] \<and>
     (act = [] \<or> act = [msg_less_active] \<or> act = [msg_active]) \<and>
     (sl = [] \<or> sl = [msg_sleep_poor] \<or> sl = [msg_sleep_excellent]) \<and>
     (st = [] \<or> st = [msg_stress_high] \<or> st = [msg_stress_low])"
proof -
  define hr where "hr = (if of_int (heart_rate (last data)) > mean (map (\<lambda>r. of_int (heart_rate r)) data) + 20
      then [msg_hr_elevated]
      else if of_int (heart_rate (last data)) < mean (map (\<lambda>r. of_int (heart_rate r)) data) - 15
      then [msg_hr_great] else [])"
  define ox where "ox = [if blood_oxygen (last data) < 95 then msg_oxygen_low else msg_oxygen_healthy]"
  define act where "act = (if of_int (steps (last data)) < mean (map (\<lambda>r. of_int (steps r)) data) * 0.7
      then [msg_less_active]
      else if of_int (steps (last data)) > mean (map (\<lambda>r. of_int (steps r)) data) * 1.3
      then [msg_active] else [])"
  define sl where "sl = (if sleep_quality (last data) < 6 then [msg_sleep_poor]
      else if sleep_quality (last data) > 8 then [msg_sleep_excellent] else [])"
  define st where "st = (if stress_level (last data) > 7 then [msg_stress_high]
      else if stress_level (last data) < 4 then [msg_stress_low] else [])"
  have "generate_health_insights data = Inr (hr @ ox @ act @ sl @ st)"
    using assms unfolding generate_health_insights_def hr_def ox_def act_def sl_def st_def
    by (simp add: iloc_last_nonempty Let_def)
  moreover have "hr = [] \<or> hr = [msg_hr_elevated] \<or> hr = [msg_hr_great]"
    by (simp add: hr_def)
  moreover have "act = [] \<or> act = [msg_less_active] \<or> act = [msg_active]"
    by (simp add: act_def)
  moreover have "sl = [] \<or> sl = [msg_sleep_poor] \<or> sl = [msg_sleep_excellent]"
    by (simp add: sl_def)
  moreover have "st = [] \<or> st = [msg_stress_high] \<or> st = [msg_stress_low]"
    by (simp add: st_def)
  ultimately show ?thesis using ox_def by blast
qed

text \<open>
  C7. On a non-empty dataset the insights are the concatenation, in the order heart rate,
  oxygen, activity, sleep, stress, of at most one message per category; the oxygen
  category gives exactly one message, the low warning exactly when the latest
  \<^verbatim>\<open>blood_oxygen\<close> is below 95 and the healthy confirmation otherwise. The ten
  messages are pairwise different.
\<close>

theorem insights_one_per_category:
  assumes "data \<noteq> []"
  shows "\<exists>hr ox act sl st.
     generate_health_insights data = Inr (hr @ ox @ act @ sl @ st) \<and>
     (hr = [] \<or> hr = [msg_hr_elevated] \<or> hr = [msg_hr_great]) \<and>
     (ox = [msg_oxygen_low] \<or> ox = [msg_oxygen_healthy]) \<and>
     (ox = [msg_oxygen_low] \<longleftrightarrow> blood_oxygen (last data) < 95) \<and>
     (act = [] \<or> act = [msg_less_active] \<or> act = [msg_active]) \<and>
     (sl = [] \<or> sl = [msg_sleep_poor] \<or> sl = [msg_sleep_excellent]) \<and>
     (st = [] \<or> st = [msg_stress_high] \<or> st = [msg_stress_low]) \<and>
     distinct [msg_hr_elevated, msg_hr_great, msg_oxygen_low, msg_oxygen_healthy,
       msg_less_active, msg_active, msg_sleep_poor, msg_sleep_excellent, msg_stress_high,
       msg_stress_low]"
proof -
  have ne: "msg_oxygen_healthy \<noteq> msg_oxygen_low" using msgs_distinct by auto
  obtain hr ox act sl st where
    d: "generate_health_insights data = Inr (hr @ ox @ act @ sl @ st)"
       "hr = [] \<or> hr = [msg_hr_elevated] \<or> hr = [msg_hr_great]"
       "ox = [if blood_oxygen (last data) < 95 then msg_oxygen_low else msg_oxygen_healthy]"
       "act = [] \<or> act = [msg_less_active] \<or> act = [msg_active]"
       "sl = [] \<or> sl = [msg_sleep_poor] \<or> sl = [msg_sleep_excellent]"
       "st = [] \<or> st = [msg_stress_high] \<or> st = [msg_stress_low]"
    using insights_decompose[OF assms] by blast
  have "ox = [msg_oxygen_low] \<or> ox = [msg_oxygen_healthy]" using d(3) by simp
  moreover have "ox = [msg_oxygen_low] \<longleftrightarrow> blood_oxygen (last data) < 95"
    using d(3) ne by simp
  ultimately show ?thesis using d(1,2,4,5,6) msgs_distinct by blast
qed

theorem insights_one_per_category_witness:
  "[scenario] \<noteq> [] \<and>
   generate_health_insights [scenario] = Inr [msg_oxygen_healthy, msg_stress_low] \<and>
   generate_health_insights [scenario\<lparr>blood_oxygen := 94.9, sleep_quality := 5\<rparr>] =
     Inr [msg_oxygen_low, msg_sleep_poor, msg_stress_low]"
  using insights_one_per_category[of "[scenario]"]
  by (simp add: generate_health_insights_def iloc_last_def mean_def scenario_def Let_def)

section \<open>Properties of the anomaly detection\<close>

lemma features_anomaly_update: "features (r\<lparr>anomaly := a\<rparr>) = features r"
  by (simp add: features_def)

lemma features_flagged:
  "length labels = length data \<Longrightarrow>
   map features (map (\<lambda>(r, a). r\<lparr>anomaly := Some (a = - 1)\<rparr>) (zip data labels)) = map features data"
  by (induction data labels rule: list_induct2') (simp_all add: features_anomaly_update)

lemma flag_twice:
  "length labels = length data \<Longrightarrow>
   map (\<lambda>(r, a). r\<lparr>anomaly := Some (a = - 1)\<rparr>)
     (zip (map (\<lambda>(r, a). r\<lparr>anomaly := Some (a = - 1)\<rparr>) (zip data labels)) labels) =
   map (\<lambda>(r, a). r\<lparr>anomaly := Some (a = - 1)\<rparr>) (zip data (labels :: int list))"
  by (induction data labels rule: list_induct2') simp_all

lemma detect_anomaliesE:
  assumes "detect_anomalies sk data = Inr data'"
  obtains X_scaled labels where
    "fit_transform sk (map features data) = Inr X_scaled"
    "fit_predict sk 0.1 42 X_scaled = Inr labels"
    "length labels = length data"
    "data' = map (\<lambda>(r, a). r\<lparr>anomaly := Some (a = - 1)\<rparr>) (zip data labels)"
  using assms unfolding detect_anomalies_def Let_def
  by (auto split: sum.splits if_splits)

text \<open>
  C6. Detection is idempotent: when \<^verbatim>\<open>detect_anomalies\<close> returns, running it
  again on its result returns that same dataset, so the \<^verbatim>\<open>anomaly\<close> column of the
  second run is the column of the first (the flags are set anew from the six feature
  columns, which a run does not change). The result has a flag on every row.
\<close>

theorem detect_idempotent:
  assumes "detect_anomalies sk data = Inr data'"
  shows "detect_anomalies sk data' = Inr data' \<and> length data' = length data \<and>
         (\<forall>r \<in> set data'. anomaly r \<noteq> None)"
proof -
  obtain X_scaled labels where
    f: "fit_transform sk (map features data) = Inr X_scaled"
       "fit_predict sk 0.1 42 X_scaled = Inr labels"
       "length labels = length data"
       "data' = map (\<lambda>(r, a). r\<lparr>anomaly := Some (a = - 1)\<rparr>) (zip data labels)"
    using detect_anomaliesE[OF assms] by blast
  have X: "map features data' = map features data"
    unfolding f(4) using f(3) by (rule features_flagged)
  have len: "length data' = length data"
    using f(3) by (simp add: f(4))
  have again: "map (\<lambda>(r, a). r\<lparr>anomaly := Some (a = - 1)\<rparr>) (zip data' labels) = data'"
    unfolding f(4) using f(3) by (rule flag_twice)
  have "detect_anomalies sk data' = Inr data'"
    unfolding detect_anomalies_def Let_def by (simp add: X f(1,2,3) len again)
  moreover have "\<forall>r \<in> set data'. anomaly r \<noteq> None"
    unfolding f(4) by (auto dest: set_zip_leftD)
  ultimately show ?thesis using len by simp
qed

theorem detect_idempotent_witness:
  "detect_anomalies sk0 [scenario, scenario\<lparr>heart_rate := 190\<rparr>] =
     Inr [scenario\<lparr>anomaly := Some False\<rparr>, scenario\<lparr>heart_rate := 190, anomaly := Some True\<rparr>] \<and>
   detect_anomalies sk0
     [scenario\<lparr>anomaly := Some False\<rparr>, scenario\<lparr>heart_rate := 190, anomaly := Some True\<rparr>] =
     Inr [scenario\<lparr>anomaly := Some False\<rparr>, scenario\<lparr>heart_rate := 190, anomaly := Some True\<rparr>]"
proof -
  have 1: "detect_anomalies sk0 [scenario, scenario\<lparr>heart_rate := 190\<rparr>] =
     Inr [scenario\<lparr>anomaly := Some False\<rparr>, scenario\<lparr>heart_rate := 190, anomaly := Some True\<rparr>]"
    by (simp add: detect_anomalies_def sk0_def features_def column_def mean_def scenario_def)
  show ?thesis using 1 detect_idempotent[OF 1] by simp
qed

section \<open>Properties of the signal generator\<close>

lemma linspace0_length: "linspace0 stop num = Inr xs \<Longrightarrow> 0 \<le> num \<and> length xs = nat num"
  by (auto simp: linspace0_def split: if_splits)

lemma date_range_length:
  "date_range start end periods = Inr ts \<Longrightarrow> 0 \<le> periods \<and> length ts = nat periods"
  by (auto simp: date_range_def split: if_splits sum.splits dest: linspace0_length)

lemma date_range_negative:
  "periods < 0 \<Longrightarrow> in_ns_bounds (start * 1000) \<Longrightarrow> in_ns_bounds (end * 1000) \<Longrightarrow>
   date_range start end periods = Inl ValueError"
  by (simp add: date_range_def linspace0_def)

lemma date_range_returns:
  "0 \<le> periods \<Longrightarrow> in_ns_bounds (start * 1000) \<Longrightarrow> in_ns_bounds (end * 1000) \<Longrightarrow>
   \<exists>ts. date_range start end periods = Inr ts"
  by (simp add: date_range_def linspace0_def)

lemma date_range_first:
  "date_range start end periods = Inr ts \<Longrightarrow> 0 < periods \<Longrightarrow> ts ! 0 = start * 1000"
  by (auto simp: date_range_def linspace0_def nth_append split: if_splits sum.splits)

lemma generate_localsE:
  assumes "generate_locals np now days spd g = Inr L"
  obtains td start_date z1 g1 z2 g2 z3 g3 z4 g4 z5 g5 z6 g6 g7 shift g8 dec where
    "timedelta days = Inr td"
    "datetime_sub now td = Inr start_date"
    "date_range start_date now (days * spd) = Inr (v_timestamps L)"
    "v_hours L = map hour (v_timestamps L)"
    "np_normal np 0 5 (nat (days * spd)) (np_seed np 42) = (z1, g1)"
    "v_heart_rate_clipped L =
       np_clip (map2 (+) (map (\<lambda>h. 70 + 10 * sin ((of_int h - 6) * pi / 12)) (v_hours L)) z1) 50 120"
    "np_normal np 0 1 (nat (days * spd)) g1 = (z2, g2)"
    "v_blood_oxygen_clipped L = np_clip (map (\<lambda>z. 98 + z) z2) 85 100"
    "np_normal np 0 100 (nat (days * spd)) g2 = (z3, g3)"
    "v_steps L = map (max 0)
       (map2 (+) (map (\<lambda>h. 500 + 300 * sin ((of_int h - 12) * pi / 12)) (v_hours L)) z3)"
    "np_normal np 0 0.5 (nat (days * spd)) g3 = (z4, g4)"
    "v_sleep_quality L = np_clip
       (map2 (+) (map (\<lambda>h. 7 + 2 * sin ((of_int h - 2) * pi / 12)) (v_hours L)) z4) 0 10"
    "np_normal np 0 1 (nat (days * spd)) g4 = (z5, g5)"
    "v_stress_level L = np_clip (map2 (+) (map (\<lambda>q. 10 - q) (v_sleep_quality L)) z5) 0 10"
    "np_normal np 0 0.5 (nat (days * spd)) g5 = (z6, g6)"
    "v_body_temp L = np_clip (map (\<lambda>z. 98.6 + z) z6) 96 102"
    "np_choice np (nat (days * spd)) (nat (py_int (0.05 * of_int (days * spd)))) g6 =
       (v_anomaly_indices L, g7)"
    "np_choice_list np [- 20, 30] (length (v_anomaly_indices L)) g7 = (shift, g8)"
    "fancy_iadd (v_heart_rate_clipped L) (v_anomaly_indices L) (map of_int shift) =
       Inr (v_heart_rate L)"
    "np_randint np 5 15 (length (v_anomaly_indices L)) g8 = (dec, v_rng L)"
    "fancy_iadd (v_blood_oxygen_clipped L) (v_anomaly_indices L) (map (\<lambda>d. - of_int d) dec) =
       Inr (v_blood_oxygen L)"
  using assms unfolding generate_locals_def Let_def
  by (auto split: sum.splits prod.splits)


subsection \<open>Index arrays\<close>

lemma fold_update_length:
  "length (fold (\<lambda>(i, v) acc. acc[i := v]) ps a) = length a"
  by (induction ps arbitrary: a) (auto simp: case_prod_beta)

lemma fold_update_notin:
  "i \<notin> fst ` set ps \<Longrightarrow> fold (\<lambda>(i, v) acc. acc[i := v]) ps a ! i = a ! i"
  by (induction ps arbitrary: a) (auto simp: case_prod_beta)

lemma fold_update_in:
  "distinct (map fst ps) \<Longrightarrow> (i, v) \<in> set ps \<Longrightarrow> i < length a \<Longrightarrow>
   fold (\<lambda>(i, v) acc. acc[i := v]) ps a ! i = v"
proof (induction ps arbitrary: a)
  case Nil
  then show ?case by simp
next
  case (Cons p ps)
  show ?case
  proof (cases "p = (i, v)")
    case True
    then have "i \<notin> fst ` set ps" using Cons.prems(1) by auto
    then show ?thesis using True Cons.prems(3) by (simp add: fold_update_notin)
  next
    case False
    have "distinct (map fst ps)" using Cons.prems(1) by simp
    moreover have "(i, v) \<in> set ps" using False Cons.prems(2) by simp
    moreover have "i < length (a[fst p := snd p])" using Cons.prems(3) by simp
    ultimately have "fold (\<lambda>(i, v) acc. acc[i := v]) ps (a[fst p := snd p]) ! i = v"
      by (rule Cons.IH)
    then show ?thesis by (cases p) simp
  qed
qed

lemma broadcast_same:
  "length vals = length idx \<Longrightarrow>
   (if length vals = 1 then replicate (length idx) (hd vals) else vals) = vals"
  by (cases vals) auto

lemma fancy_iadd_returns:
  assumes "\<forall>i \<in> set idx. i < length a" and "length vals = length idx"
  shows "\<exists>r. fancy_iadd a idx vals = Inr r"
proof -
  have "\<not> list_ex (\<lambda>i. length a \<le> i) idx"
    using assms(1) by (auto simp: list_ex_iff)
  then show ?thesis
    unfolding fancy_iadd_def Let_def broadcast_same[OF assms(2)] using assms(2) by simp
qed

lemma fancy_iadd_Inr:
  assumes "fancy_iadd a idx vals = Inr r" and "length vals = length idx" and "distinct idx"
  shows "length r = length a"
    and "\<forall>i \<in> set idx. i < length a"
    and "\<forall>j < length idx. r ! (idx ! j) = a ! (idx ! j) + vals ! j"
    and "\<forall>i. i \<notin> set idx \<longrightarrow> r ! i = a ! i"
proof -
  let ?ps = "zip idx (map2 (+) (map ((!) a) idx) vals)"
  have ok: "\<not> list_ex (\<lambda>i. length a \<le> i) idx" and
       r: "r = fold (\<lambda>(i, v) acc. acc[i := v]) ?ps a"
    using assms(1) unfolding fancy_iadd_def Let_def broadcast_same[OF assms(2)]
    by (auto split: if_splits)
  show "length r = length a" by (simp add: r fold_update_length)
  show bound: "\<forall>i \<in> set idx. i < length a" using ok by (auto simp: list_ex_iff)
  have fst_ps: "map fst ?ps = idx" using assms(2) by simp
  show "\<forall>j < length idx. r ! (idx ! j) = a ! (idx ! j) + vals ! j"
  proof (intro allI impI)
    fix j assume j: "j < length idx"
    have "?ps ! j = (idx ! j, a ! (idx ! j) + vals ! j)"
      using j assms(2) by simp
    moreover have "j < length ?ps" using j assms(2) by simp
    ultimately have mem: "(idx ! j, a ! (idx ! j) + vals ! j) \<in> set ?ps"
      by (metis nth_mem)
    have "distinct (map fst ?ps)" using fst_ps assms(3) by simp
    moreover note mem
    moreover have "idx ! j < length a" using bound j by simp
    ultimately show "r ! (idx ! j) = a ! (idx ! j) + vals ! j"
      unfolding r by (rule fold_update_in)
  qed
  show "\<forall>i. i \<notin> set idx \<longrightarrow> r ! i = a ! i"
  proof (intro allI impI)
    fix i assume "i \<notin> set idx"
    then have "i \<notin> fst ` set ?ps" using fst_ps by (metis set_map)
    then show "r ! i = a ! i" unfolding r by (rule fold_update_notin)
  qed
qed

subsection \<open>Ranges\<close>

lemma np_clip_length: "length (np_clip xs lo hi) = length xs"
  by (simp add: np_clip_def)

lemma np_clip_nth:
  "lo \<le> hi \<Longrightarrow> i < length xs \<Longrightarrow> lo \<le> np_clip xs lo hi ! i \<and> np_clip xs lo hi ! i \<le> hi"
  by (simp add: np_clip_def)

lemma py_int_bounds:
  "of_int a \<le> x \<Longrightarrow> x \<le> of_int b \<Longrightarrow> 0 \<le> a \<Longrightarrow> a \<le> py_int x \<and> py_int x \<le> b"
  by (auto simp: py_int_def le_floor_iff floor_le_iff)

lemma py_int_nonneg: "0 \<le> x \<Longrightarrow> 0 \<le> py_int x"
  by (simp add: py_int_def)

lemma floor_count: "\<lfloor>(0.05 :: real) * of_int t\<rfloor> = t div 20"
proof -
  have "(0.05 :: real) * of_int t = of_int t / of_int 20" by simp
  then show ?thesis by (simp only: floor_divide_of_int_eq)
qed

lemma anomaly_count: "0 \<le> t \<Longrightarrow> py_int (0.05 * of_int t) = t div 20"
  unfolding py_int_def floor_count by simp

subsection \<open>The generator's contract\<close>

lemma rng_ok_normal:
  "rng_ok np \<Longrightarrow> np_normal np loc scale n g = (z, g') \<Longrightarrow> length z = n"
  unfolding rng_ok_def by (metis fst_conv)

lemma rng_ok_choice:
  assumes "rng_ok np" and "np_choice np a k g = (idx, g')" and "k \<le> a"
  shows "length idx = k" and "distinct idx" and "\<forall>i \<in> set idx. i < a"
proof -
  have "length (fst (np_choice np a k g)) = k \<and> distinct (fst (np_choice np a k g)) \<and>
        (\<forall>i \<in> set (fst (np_choice np a k g)). i < a)"
    using assms(1,3) unfolding rng_ok_def by blast
  then show "length idx = k" and "distinct idx" and "\<forall>i \<in> set idx. i < a"
    by (simp_all add: assms(2))
qed

lemma rng_ok_choice_list:
  assumes "rng_ok np" and "np_choice_list np xs k g = (ys, g')" and "xs \<noteq> []"
  shows "length ys = k" and "set ys \<subseteq> set xs"
proof -
  have "length (fst (np_choice_list np xs k g)) = k \<and>
        set (fst (np_choice_list np xs k g)) \<subseteq> set xs"
    using assms(1,3) unfolding rng_ok_def by blast
  then show "length ys = k" and "set ys \<subseteq> set xs"
    by (simp_all add: assms(2))
qed

lemma rng_ok_randint:
  assumes "rng_ok np" and "np_randint np lo hi k g = (ds, g')" and "lo < hi"
  shows "length ds = k" and "\<forall>d \<in> set ds. lo \<le> d \<and> d < hi"
proof -
  have "length (fst (np_randint np lo hi k g)) = k \<and>
        (\<forall>d \<in> set (fst (np_randint np lo hi k g)). lo \<le> d \<and> d < hi)"
    using assms(1,3) unfolding rng_ok_def by blast
  then show "length ds = k" and "\<forall>d \<in> set ds. lo \<le> d \<and> d < hi"
    by (simp_all add: assms(2))
qed

lemma rng_ok_np0: "rng_ok np0"
  unfolding rng_ok_def np0_def by auto

subsection \<open>The shape of a run\<close>

lemma count_le_total:
  assumes "0 \<le> t"
  shows "nat (py_int (0.05 * of_int t)) \<le> nat t"
proof -
  have "t div 20 \<le> t" using assms by presburger
  then show ?thesis unfolding anomaly_count[OF assms] by (rule nat_mono)
qed

lemma generate_locals_shape:
  assumes ok: "rng_ok np" and run: "generate_locals np now days spd g = Inr L"
  shows "0 \<le> days * spd"
    and "length (v_timestamps L) = nat (days * spd)"
    and "length (v_heart_rate_clipped L) = nat (days * spd)"
    and "length (v_blood_oxygen_clipped L) = nat (days * spd)"
    and "length (v_steps L) = nat (days * spd)"
    and "length (v_sleep_quality L) = nat (days * spd)"
    and "length (v_stress_level L) = nat (days * spd)"
    and "length (v_body_temp L) = nat (days * spd)"
    and "length (v_heart_rate L) = nat (days * spd)"
    and "length (v_blood_oxygen L) = nat (days * spd)"
    and "length (v_anomaly_indices L) = nat ((days * spd) div 20)"
    and "distinct (v_anomaly_indices L)"
    and "\<forall>i \<in> set (v_anomaly_indices L). i < nat (days * spd)"
proof -
  from run obtain start_date z1 g1 z2 g2 z3 g3 z4 g4 z5 g5 z6 g6 g7 shift g8 dec where
    f: "date_range start_date now (days * spd) = Inr (v_timestamps L)"
       "v_hours L = map hour (v_timestamps L)"
       "np_normal np 0 5 (nat (days * spd)) (np_seed np 42) = (z1, g1)"
       "v_heart_rate_clipped L =
          np_clip (map2 (+) (map (\<lambda>h. 70 + 10 * sin ((of_int h - 6) * pi / 12)) (v_hours L)) z1) 50 120"
       "np_normal np 0 1 (nat (days * spd)) g1 = (z2, g2)"
       "v_blood_oxygen_clipped L = np_clip (map (\<lambda>z. 98 + z) z2) 85 100"
       "np_normal np 0 100 (nat (days * spd)) g2 = (z3, g3)"
       "v_steps L = map (max 0)
          (map2 (+) (map (\<lambda>h. 500 + 300 * sin ((of_int h - 12) * pi / 12)) (v_hours L)) z3)"
       "np_normal np 0 0.5 (nat (days * spd)) g3 = (z4, g4)"
       "v_sleep_quality L = np_clip
          (map2 (+) (map (\<lambda>h. 7 + 2 * sin ((of_int h - 2) * pi / 12)) (v_hours L)) z4) 0 10"
       "np_normal np 0 1 (nat (days * spd)) g4 = (z5, g5)"
       "v_stress_level L = np_clip (map2 (+) (map (\<lambda>q. 10 - q) (v_sleep_quality L)) z5) 0 10"
       "np_normal np 0 0.5 (nat (days * spd)) g5 = (z6, g6)"
       "v_body_temp L = np_clip (map (\<lambda>z. 98.6 + z) z6) 96 102"
       "np_choice np (nat (days * spd)) (nat (py_int (0.05 * of_int (days * spd)))) g6 =
          (v_anomaly_indices L, g7)"
       "np_choice_list np [- 20, 30] (length (v_anomaly_indices L)) g7 = (shift, g8)"
       "fancy_iadd (v_heart_rate_clipped L) (v_anomaly_indices L) (map of_int shift) =
          Inr (v_heart_rate L)"
       "np_randint np 5 15 (length (v_anomaly_indices L)) g8 = (dec, v_rng L)"
       "fancy_iadd (v_blood_oxygen_clipped L) (v_anomaly_indices L) (map (\<lambda>d. - of_int d) dec) =
          Inr (v_blood_oxygen L)"
    by (rule generate_localsE)
  show nonneg: "0 \<le> days * spd" and ts: "length (v_timestamps L) = nat (days * spd)"
    using date_range_length[OF f(1)] by simp_all
  have h: "length (v_hours L) = nat (days * spd)" by (simp add: f(2) ts)
  note z = rng_ok_normal[OF ok f(3)] rng_ok_normal[OF ok f(5)] rng_ok_normal[OF ok f(7)]
    rng_ok_normal[OF ok f(9)] rng_ok_normal[OF ok f(11)] rng_ok_normal[OF ok f(13)]
  show hr: "length (v_heart_rate_clipped L) = nat (days * spd)"
    by (simp add: f(4) np_clip_length h z)
  show ox: "length (v_blood_oxygen_clipped L) = nat (days * spd)"
    by (simp add: f(6) np_clip_length z)
  show "length (v_steps L) = nat (days * spd)"
    by (simp add: f(8) h z)
  show sl: "length (v_sleep_quality L) = nat (days * spd)"
    by (simp add: f(10) np_clip_length h z)
  show "length (v_stress_level L) = nat (days * spd)"
    by (simp add: f(12) np_clip_length sl z)
  show "length (v_body_temp L) = nat (days * spd)"
    by (simp add: f(14) np_clip_length z)
  note c = rng_ok_choice[OF ok f(15) count_le_total[OF nonneg]]
  show "length (v_anomaly_indices L) = nat ((days * spd) div 20)"
    using c(1) unfolding anomaly_count[OF nonneg] .
  show d: "distinct (v_anomaly_indices L)" by (rule c(2))
  show "\<forall>i \<in> set (v_anomaly_indices L). i < nat (days * spd)" by (rule c(3))
  have s: "length (map real_of_int shift) = length (v_anomaly_indices L)"
    using rng_ok_choice_list(1)[OF ok f(16)] by simp
  show "length (v_heart_rate L) = nat (days * spd)"
    using fancy_iadd_Inr(1)[OF f(17) s d] hr by simp
  have e: "length (map (\<lambda>d. - real_of_int d) dec) = length (v_anomaly_indices L)"
    using rng_ok_randint(1)[OF ok f(18)] by simp
  show "length (v_blood_oxygen L) = nat (days * spd)"
    using fancy_iadd_Inr(1)[OF f(19) e d] ox by simp
qed

lemma generate_locals_injected:
  assumes ok: "rng_ok np" and run: "generate_locals np now days spd g = Inr L"
  shows "\<forall>i \<in> set (v_anomaly_indices L).
           (v_heart_rate L ! i = v_heart_rate_clipped L ! i - 20 \<or>
            v_heart_rate L ! i = v_heart_rate_clipped L ! i + 30) \<and>
           (\<exists>d \<in> {5..14}. v_blood_oxygen L ! i = v_blood_oxygen_clipped L ! i - of_int d)"
    and "\<forall>i. i \<notin> set (v_anomaly_indices L) \<longrightarrow>
           v_heart_rate L ! i = v_heart_rate_clipped L ! i \<and>
           v_blood_oxygen L ! i = v_blood_oxygen_clipped L ! i"
proof -
  from run obtain g7 shift g8 dec where
    f: "np_choice_list np [- 20, 30] (length (v_anomaly_indices L)) g7 = (shift, g8)"
       "fancy_iadd (v_heart_rate_clipped L) (v_anomaly_indices L) (map of_int shift) =
          Inr (v_heart_rate L)"
       "np_randint np 5 15 (length (v_anomaly_indices L)) g8 = (dec, v_rng L)"
       "fancy_iadd (v_blood_oxygen_clipped L) (v_anomaly_indices L) (map (\<lambda>d. - of_int d) dec) =
          Inr (v_blood_oxygen L)"
    by (rule generate_localsE)
  note d = generate_locals_shape(12)[OF ok run]
  note sh = rng_ok_choice_list[OF ok f(1)]
  note de = rng_ok_randint[OF ok f(3)]
  have s: "length (map real_of_int shift) = length (v_anomaly_indices L)"
    using sh(1) by simp
  have e: "length (map (\<lambda>d. - real_of_int d) dec) = length (v_anomaly_indices L)"
    using de(1) by simp
  note hr = fancy_iadd_Inr[OF f(2) s d]
  note ox = fancy_iadd_Inr[OF f(4) e d]
  show "\<forall>i \<in> set (v_anomaly_indices L).
           (v_heart_rate L ! i = v_heart_rate_clipped L ! i - 20 \<or>
            v_heart_rate L ! i = v_heart_rate_clipped L ! i + 30) \<and>
           (\<exists>d \<in> {5..14}. v_blood_oxygen L ! i = v_blood_oxygen_clipped L ! i - of_int d)"
  proof
    fix i assume "i \<in> set (v_anomaly_indices L)"
    then obtain j where j: "j < length (v_anomaly_indices L)" "v_anomaly_indices L ! j = i"
      by (auto simp: in_set_conv_nth)
    have "shift ! j \<in> set shift" using j(1) sh(1) by simp
    then have "shift ! j = - 20 \<or> shift ! j = 30" using sh(2) by auto
    moreover have "v_heart_rate L ! i = v_heart_rate_clipped L ! i + of_int (shift ! j)"
      using hr(3) j sh(1) by auto
    ultimately have 1: "v_heart_rate L ! i = v_heart_rate_clipped L ! i - 20 \<or>
            v_heart_rate L ! i = v_heart_rate_clipped L ! i + 30" by auto
    have "dec ! j \<in> set dec" using j(1) de(1) by simp
    then have "dec ! j \<in> {5..14}" using de(2) by auto
    moreover have "v_blood_oxygen L ! i = v_blood_oxygen_clipped L ! i - of_int (dec ! j)"
      using ox(3) j de(1) by auto
    ultimately have 2: "\<exists>d \<in> {5..14}. v_blood_oxygen L ! i = v_blood_oxygen_clipped L ! i - of_int d"
      by blast
    show "(v_heart_rate L ! i = v_heart_rate_clipped L ! i - 20 \<or>
            v_heart_rate L ! i = v_heart_rate_clipped L ! i + 30) \<and>
           (\<exists>d \<in> {5..14}. v_blood_oxygen L ! i = v_blood_oxygen_clipped L ! i - of_int d)"
      using 1 2 by simp
  qed
  show "\<forall>i. i \<notin> set (v_anomaly_indices L) \<longrightarrow>
           v_heart_rate L ! i = v_heart_rate_clipped L ! i \<and>
           v_blood_oxygen L ! i = v_blood_oxygen_clipped L ! i"
    using hr(4) ox(4) by simp
qed

lemma dates_ok_start:
  assumes "dates_ok now days"
  shows "timedelta days = Inr (days * 86400000000)"
    and "datetime_sub now (days * 86400000000) = Inr (now - days * 86400000000)"
  using assms unfolding dates_ok_def timedelta_def datetime_sub_def in_ns_bounds_def Let_def
  by auto

lemma generate_locals_returns:
  assumes ok: "rng_ok np"
    and td: "timedelta days = Inr td"
    and sd: "datetime_sub now td = Inr start_date"
    and dr: "date_range start_date now (days * spd) = Inr ts"
  shows "\<exists>L. generate_locals np now days spd g = Inr L \<and> v_timestamps L = ts"
proof -
  let ?n = "nat (days * spd)"
  let ?hours = "map hour ts"
  have nonneg: "0 \<le> days * spd" and ts: "length ts = ?n"
    using date_range_length[OF dr] by simp_all
  obtain z1 g1 where z1: "np_normal np 0 5 ?n (np_seed np 42) = (z1, g1)" by fastforce
  obtain z2 g2 where z2: "np_normal np 0 1 ?n g1 = (z2, g2)" by fastforce
  obtain z3 g3 where z3: "np_normal np 0 100 ?n g2 = (z3, g3)" by fastforce
  obtain z4 g4 where z4: "np_normal np 0 0.5 ?n g3 = (z4, g4)" by fastforce
  obtain z5 g5 where z5: "np_normal np 0 1 ?n g4 = (z5, g5)" by fastforce
  obtain z6 g6 where z6: "np_normal np 0 0.5 ?n g5 = (z6, g6)" by fastforce
  obtain idx g7 where idx: "np_choice np ?n (nat (py_int (0.05 * of_int (days * spd)))) g6 = (idx, g7)"
    by fastforce
  obtain shift g8 where shift: "np_choice_list np [- 20, 30] (length idx) g7 = (shift, g8)"
    by fastforce
  obtain dec g9 where dec: "np_randint np 5 15 (length idx) g8 = (dec, g9)" by fastforce
  define hr where "hr = np_clip (map2 (+) (map (\<lambda>h. 70 + 10 * sin ((of_int h - 6) * pi / 12)) ?hours) z1) 50 120"
  define ox where "ox = np_clip (map (\<lambda>z. 98 + z) z2) 85 100"
  have lhr: "length hr = ?n"
    using rng_ok_normal[OF ok z1] by (simp add: hr_def np_clip_length ts)
  have lox: "length ox = ?n"
    using rng_ok_normal[OF ok z2] by (simp add: ox_def np_clip_length)
  note c = rng_ok_choice[OF ok idx count_le_total[OF nonneg]]
  have "\<forall>i \<in> set idx. i < length hr" using c(3) lhr by simp
  moreover have "length (map real_of_int shift) = length idx"
    using rng_ok_choice_list(1)[OF ok shift] by simp
  ultimately obtain hr' where hr': "fancy_iadd hr idx (map real_of_int shift) = Inr hr'"
    using fancy_iadd_returns by blast
  have "\<forall>i \<in> set idx. i < length ox" using c(3) lox by simp
  moreover have "length (map (\<lambda>d. - real_of_int d) dec) = length idx"
    using rng_ok_randint(1)[OF ok dec] by simp
  ultimately obtain ox' where ox': "fancy_iadd ox idx (map (\<lambda>d. - real_of_int d) dec) = Inr ox'"
    using fancy_iadd_returns by blast
  show ?thesis
    by (simp only: generate_locals_def Let_def td sd dr z1 z2 z3 z4 z5 z6 idx shift dec
          hr_def[symmetric] ox_def[symmetric] hr' ox' sum.case prod.case) simp
qed

subsection \<open>The data frame\<close>

lemma DataFrame_returns:
  "length hr = length ts \<Longrightarrow> length ox = length ts \<Longrightarrow> length st = length ts \<Longrightarrow>
   length sl = length ts \<Longrightarrow> length sr = length ts \<Longrightarrow> length bt = length ts \<Longrightarrow>
   \<exists>df. DataFrame ts hr ox st sl sr bt = Inr df"
  by (simp add: DataFrame_def)

lemma DataFrame_Inr:
  assumes "DataFrame ts hr ox st sl sr bt = Inr df"
  shows "length df = length ts"
    and "\<forall>i < length ts. timestamp (df ! i) = ts ! i \<and> heart_rate (df ! i) = hr ! i \<and>
           blood_oxygen (df ! i) = ox ! i \<and> steps (df ! i) = st ! i \<and>
           sleep_quality (df ! i) = sl ! i \<and> stress_level (df ! i) = sr ! i \<and>
           body_temperature (df ! i) = bt ! i \<and> anomaly (df ! i) = None"
  using assms unfolding DataFrame_def by (auto split: if_splits)

lemma generate_sample_dataE:
  assumes "generate_sample_data np now days spd g = Inr (df, g')"
  obtains L where "generate_locals np now days spd g = Inr L"
    and "DataFrame (v_timestamps L) (map py_int (v_heart_rate L))
           (map round1 (v_blood_oxygen L)) (map py_int (v_steps L))
           (map round1 (v_sleep_quality L)) (map round1 (v_stress_level L))
           (map round1 (v_body_temp L)) = Inr df"
    and "g' = v_rng L"
  using assms unfolding generate_sample_data_def by (auto split: sum.splits)

lemma generate_sample_data_returns:
  assumes ok: "rng_ok np" and run: "generate_locals np now days spd g = Inr L"
  shows "\<exists>df. generate_sample_data np now days spd g = Inr (df, v_rng L) \<and>
           length df = nat (days * spd) \<and> map timestamp df = v_timestamps L"
proof -
  note s = generate_locals_shape[OF ok run]
  obtain df where df: "DataFrame (v_timestamps L) (map py_int (v_heart_rate L))
           (map round1 (v_blood_oxygen L)) (map py_int (v_steps L))
           (map round1 (v_sleep_quality L)) (map round1 (v_stress_level L))
           (map round1 (v_body_temp L)) = Inr df"
    using DataFrame_returns[of "map py_int (v_heart_rate L)" "v_timestamps L"
        "map round1 (v_blood_oxygen L)" "map py_int (v_steps L)" "map round1 (v_sleep_quality L)"
        "map round1 (v_stress_level L)" "map round1 (v_body_temp L)"]
    by (auto simp: s)
  note d = DataFrame_Inr[OF df]
  have "map timestamp df = v_timestamps L"
    using d by (simp add: list_eq_iff_nth_eq)
  then show ?thesis
    unfolding generate_sample_data_def using d(1) by (simp add: run df s(2))
qed

lemma generate_sample_data_negative:
  assumes "dates_ok now days" and "days * spd < 0"
  shows "generate_sample_data np now days spd g = Inl ValueError"
proof -
  have "date_range (now - days * 86400000000) now (days * spd) = Inl ValueError"
    using assms unfolding dates_ok_def by (simp add: date_range_negative)
  then show ?thesis
    unfolding generate_sample_data_def generate_locals_def Let_def
    by (simp add: dates_ok_start[OF assms(1)])
qed

lemma generate_sample_data_total:
  assumes "rng_ok np" and "dates_ok now days" and "0 \<le> days * spd"
  shows "\<exists>df g'. generate_sample_data np now days spd g = Inr (df, g') \<and>
           length df = nat (days * spd) \<and>
           (0 < days * spd \<longrightarrow> timestamp (df ! 0) = (now - days * 86400000000) * 1000)"
proof -
  obtain ts where ts: "date_range (now - days * 86400000000) now (days * spd) = Inr ts"
    using date_range_returns[OF assms(3)] assms(2) unfolding dates_ok_def by blast
  obtain L where L: "generate_locals np now days spd g = Inr L" "v_timestamps L = ts"
    using generate_locals_returns[OF assms(1) dates_ok_start[OF assms(2)] ts] by blast
  obtain df where df: "generate_sample_data np now days spd g = Inr (df, v_rng L)"
      "length df = nat (days * spd)" "map timestamp df = v_timestamps L"
    using generate_sample_data_returns[OF assms(1) L(1)] by blast
  have "0 < days * spd \<longrightarrow> timestamp (df ! 0) = (now - days * 86400000000) * 1000"
  proof
    assume p: "0 < days * spd"
    then have "0 < length df" using df(2) by simp
    then have "timestamp (df ! 0) = map timestamp df ! 0" by simp
    also have "\<dots> = ts ! 0" by (simp add: df(3) L(2))
    also have "\<dots> = (now - days * 86400000000) * 1000" using date_range_first[OF ts p] .
    finally show "timestamp (df ! 0) = (now - days * 86400000000) * 1000" .
  qed
  then show ?thesis using df(1,2) by blast
qed

lemma dates_ok_noon: "dates_ok noon 1" "dates_ok noon 0" "dates_ok noon (- 1)"
  "dates_ok (noon + 3600000000) 1"
  by (simp_all add: dates_ok_def in_ns_bounds_def noon_def)

subsection \<open>Repeated calls\<close>

text \<open>
  C1, as stated, fails: two calls with days = 1 and samples\_per\_day = 1, made an hour
  apart, both return a dataset, and the two datasets differ.
\<close>

theorem generate_clock_counterexample:
  "\<not> isl (generate_sample_data np0 noon 1 1 0) \<and>
   \<not> isl (generate_sample_data np0 (noon + 3600000000) 1 1 0) \<and>
   generate_sample_data np0 noon 1 1 0 \<noteq> generate_sample_data np0 (noon + 3600000000) 1 1 0"
proof -
  obtain df1 g1 where 1: "generate_sample_data np0 noon 1 1 0 = Inr (df1, g1)"
      "timestamp (df1 ! 0) = (noon - 1 * 86400000000) * 1000"
    using generate_sample_data_total[OF rng_ok_np0 dates_ok_noon(1), of 1 0] by auto
  obtain df2 g2 where 2: "generate_sample_data np0 (noon + 3600000000) 1 1 0 = Inr (df2, g2)"
      "timestamp (df2 ! 0) = (noon + 3600000000 - 1 * 86400000000) * 1000"
    using generate_sample_data_total[OF rng_ok_np0 dates_ok_noon(4), of 1 0] by auto
  have "timestamp (df1 ! 0) \<noteq> timestamp (df2 ! 0)" unfolding 1(2) 2(2) by simp
  then have "df1 \<noteq> df2" by auto
  then show ?thesis by (simp add: 1(1) 2(1))
qed

text \<open>
  C1, amended. \<^verbatim>\<open>generate_sample_data\<close> has no seed parameter: it seeds the
  generator with the constant 42. For a fixed pair (days, samples\_per\_day) and a fixed
  reading of the clock, two calls give the same result (the same dataset, or the same
  error), whatever state the generator was in before each call.
\<close>

theorem generate_deterministic:
  "generate_sample_data np now days samples_per_day g =
   generate_sample_data np now days samples_per_day g'"
  by (simp add: generate_sample_data_def generate_locals_def)

theorem generate_deterministic_witness:
  "generate_sample_data np0 noon 1 24 0 = generate_sample_data np0 noon 1 24 7"
  by (rule generate_deterministic)

subsection \<open>Non-positive parameters\<close>

lemma generate_zero_days: "generate_sample_data np0 noon 0 24 0 = Inr ([], 42)"
  by (simp add: generate_sample_data_def generate_locals_def timedelta_def datetime_sub_def
      date_range_def linspace0_def in_ns_bounds_def noon_def np0_def np_clip_def py_int_def
      fancy_iadd_def DataFrame_def Let_def)

lemma generate_both_negative:
  "\<not> isl (generate_sample_data np0 noon (- 1) (- 1) 0) \<and>
   length (fst (projr (generate_sample_data np0 noon (- 1) (- 1) 0))) = 1"
proof -
  obtain df g' where "generate_sample_data np0 noon (- 1) (- 1) 0 = Inr (df, g')"
      "length df = nat (- 1 * - 1)"
    using generate_sample_data_total[OF rng_ok_np0 dates_ok_noon(3), of "- 1" 0] by auto
  then show ?thesis by simp
qed

text \<open>
  C9, as stated, fails: with days = 0 the call returns an empty dataset, and with
  days = -1 and samples\_per\_day = -1 it returns a dataset of one row.
\<close>

theorem generate_nonpositive_counterexample:
  "generate_sample_data np0 noon 0 24 0 = Inr ([], 42) \<and>
   \<not> isl (generate_sample_data np0 noon (- 1) (- 1) 0) \<and>
   length (fst (projr (generate_sample_data np0 noon (- 1) (- 1) 0))) = 1"
  using generate_zero_days generate_both_negative by simp

text \<open>
  C9, amended. \<^verbatim>\<open>generate_sample_data\<close> validates neither parameter. For a clock
  reading and a number of days whose dates are representable, the call fails, with the
  ValueError of the date range, exactly when days * samples\_per\_day is negative;
  otherwise (one of them 0, or both negative) it returns a dataset of
  days * samples\_per\_day rows.
\<close>

theorem generate_no_validation:
  assumes "rng_ok np" and "dates_ok now days"
  shows "(days * samples_per_day < 0 \<longrightarrow>
            generate_sample_data np now days samples_per_day g = Inl ValueError) \<and>
         (0 \<le> days * samples_per_day \<longrightarrow>
            (\<exists>df g'. generate_sample_data np now days samples_per_day g = Inr (df, g') \<and>
               length df = nat (days * samples_per_day)))"
proof (intro conjI impI)
  assume "days * samples_per_day < 0"
  with assms(2) show "generate_sample_data np now days samples_per_day g = Inl ValueError"
    by (rule generate_sample_data_negative)
next
  assume "0 \<le> days * samples_per_day"
  from generate_sample_data_total[OF assms this, of g]
  show "\<exists>df g'. generate_sample_data np now days samples_per_day g = Inr (df, g') \<and>
          length df = nat (days * samples_per_day)"
    by blast
qed

theorem generate_no_validation_witness:
  "rng_ok np0 \<and> dates_ok noon 0 \<and> dates_ok noon (- 1) \<and>
   generate_sample_data np0 noon (- 1) 24 0 = Inl ValueError \<and>
   (\<exists>df g'. generate_sample_data np0 noon 0 24 0 = Inr (df, g') \<and> length df = 0) \<and>
   (\<exists>df g'. generate_sample_data np0 noon (- 1) (- 24) 0 = Inr (df, g') \<and> length df = 24)"
  using generate_no_validation[OF rng_ok_np0 dates_ok_noon(3), of 24 0]
    generate_no_validation[OF rng_ok_np0 dates_ok_noon(2), of 24 0]
    generate_no_validation[OF rng_ok_np0 dates_ok_noon(3), of "- 24" 0]
    rng_ok_np0 dates_ok_noon
  by simp

lemma np_clip_range:
  "ys = np_clip xs lo hi \<Longrightarrow> lo \<le> hi \<Longrightarrow> i < length ys \<Longrightarrow> lo \<le> ys ! i \<and> ys ! i \<le> hi"
  by (simp add: np_clip_def)

lemma generate_locals_ranges:
  assumes run: "generate_locals np now days spd g = Inr L"
  shows "\<forall>i < length (v_heart_rate_clipped L).
           50 \<le> v_heart_rate_clipped L ! i \<and> v_heart_rate_clipped L ! i \<le> 120"
    and "\<forall>i < length (v_blood_oxygen_clipped L).
           85 \<le> v_blood_oxygen_clipped L ! i \<and> v_blood_oxygen_clipped L ! i \<le> 100"
    and "\<forall>i < length (v_steps L). 0 \<le> v_steps L ! i"
    and "\<forall>i < length (v_sleep_quality L).
           0 \<le> v_sleep_quality L ! i \<and> v_sleep_quality L ! i \<le> 10"
    and "\<forall>i < length (v_stress_level L).
           0 \<le> v_stress_level L ! i \<and> v_stress_level L ! i \<le> 10"
    and "\<forall>i < length (v_body_temp L). 96 \<le> v_body_temp L ! i \<and> v_body_temp L ! i \<le> 102"
proof -
  from run obtain z1 z2 z3 z4 z5 z6 where
    f: "v_heart_rate_clipped L =
          np_clip (map2 (+) (map (\<lambda>h. 70 + 10 * sin ((of_int h - 6) * pi / 12)) (v_hours L)) z1) 50 120"
       "v_blood_oxygen_clipped L = np_clip (map (\<lambda>z. 98 + z) z2) 85 100"
       "v_steps L = map (max 0)
          (map2 (+) (map (\<lambda>h. 500 + 300 * sin ((of_int h - 12) * pi / 12)) (v_hours L)) z3)"
       "v_sleep_quality L = np_clip
          (map2 (+) (map (\<lambda>h. 7 + 2 * sin ((of_int h - 2) * pi / 12)) (v_hours L)) z4) 0 10"
       "v_stress_level L = np_clip (map2 (+) (map (\<lambda>q. 10 - q) (v_sleep_quality L)) z5) 0 10"
       "v_body_temp L = np_clip (map (\<lambda>z. 98.6 + z) z6) 96 102"
    by (rule generate_localsE)
  show "\<forall>i < length (v_heart_rate_clipped L).
           50 \<le> v_heart_rate_clipped L ! i \<and> v_heart_rate_clipped L ! i \<le> 120"
    using np_clip_range[OF f(1)] by simp
  show "\<forall>i < length (v_blood_oxygen_clipped L).
           85 \<le> v_blood_oxygen_clipped L ! i \<and> v_blood_oxygen_clipped L ! i \<le> 100"
    using np_clip_range[OF f(2)] by simp
  show "\<forall>i < length (v_steps L). 0 \<le> v_steps L ! i"
    unfolding f(3) by simp
  show "\<forall>i < length (v_sleep_quality L).
           0 \<le> v_sleep_quality L ! i \<and> v_sleep_quality L ! i \<le> 10"
    using np_clip_range[OF f(4)] by simp
  show "\<forall>i < length (v_stress_level L).
           0 \<le> v_stress_level L ! i \<and> v_stress_level L ! i \<le> 10"
    using np_clip_range[OF f(5)] by simp
  show "\<forall>i < length (v_body_temp L). 96 \<le> v_body_temp L ! i \<and> v_body_temp L ! i \<le> 102"
    using np_clip_range[OF f(6)] by simp
qed

lemma round1_range:
  "of_int a / 10 \<le> x \<Longrightarrow> x \<le> of_int b / 10 \<Longrightarrow>
   of_int a / 10 \<le> round1 x \<and> round1 x \<le> of_int b / 10"
  using round1_bounds[of a x b] by (simp add: field_simps)

lemma generated_rows:
  assumes ok: "rng_ok np" and run: "generate_locals np now days spd g = Inr L"
    and ret: "generate_sample_data np now days spd g = Inr (df, g')"
    and i: "i < length df"
  shows "0 \<le> steps (df ! i)"
    and "0 \<le> sleep_quality (df ! i) \<and> sleep_quality (df ! i) \<le> 10"
    and "0 \<le> stress_level (df ! i) \<and> stress_level (df ! i) \<le> 10"
    and "96 \<le> body_temperature (df ! i) \<and> body_temperature (df ! i) \<le> 102"
    and "i \<notin> set (v_anomaly_indices L) \<Longrightarrow>
           50 \<le> heart_rate (df ! i) \<and> heart_rate (df ! i) \<le> 120 \<and>
           85 \<le> blood_oxygen (df ! i) \<and> blood_oxygen (df ! i) \<le> 100"
    and "i \<in> set (v_anomaly_indices L) \<Longrightarrow>
           30 \<le> heart_rate (df ! i) \<and> heart_rate (df ! i) \<le> 150 \<and>
           71 \<le> blood_oxygen (df ! i) \<and> blood_oxygen (df ! i) \<le> 95"
proof -
  from ret obtain L' where "generate_locals np now days spd g = Inr L'"
    and "DataFrame (v_timestamps L') (map py_int (v_heart_rate L'))
           (map round1 (v_blood_oxygen L')) (map py_int (v_steps L'))
           (map round1 (v_sleep_quality L')) (map round1 (v_stress_level L'))
           (map round1 (v_body_temp L')) = Inr df"
    by (rule generate_sample_dataE)
  then have df: "DataFrame (v_timestamps L) (map py_int (v_heart_rate L))
           (map round1 (v_blood_oxygen L)) (map py_int (v_steps L))
           (map round1 (v_sleep_quality L)) (map round1 (v_stress_level L))
           (map round1 (v_body_temp L)) = Inr df"
    using run by simp
  note s = generate_locals_shape[OF ok run]
  note r = generate_locals_ranges[OF run]
  note d = DataFrame_Inr[OF df]
  have n: "i < nat (days * spd)" using i d(1) s(2) by simp
  have row: "heart_rate (df ! i) = py_int (v_heart_rate L ! i)"
    "blood_oxygen (df ! i) = round1 (v_blood_oxygen L ! i)"
    "steps (df ! i) = py_int (v_steps L ! i)"
    "sleep_quality (df ! i) = round1 (v_sleep_quality L ! i)"
    "stress_level (df ! i) = round1 (v_stress_level L ! i)"
    "body_temperature (df ! i) = round1 (v_body_temp L ! i)"
    using d(2) n s by simp_all
  show "0 \<le> steps (df ! i)"
    unfolding row using r(3) n s(5) by (simp add: py_int_nonneg)
  show "0 \<le> sleep_quality (df ! i) \<and> sleep_quality (df ! i) \<le> 10"
    unfolding row using r(4) n s(6) round1_range[of 0 "v_sleep_quality L ! i" 100] by simp
  show "0 \<le> stress_level (df ! i) \<and> stress_level (df ! i) \<le> 10"
    unfolding row using r(5) n s(7) round1_range[of 0 "v_stress_level L ! i" 100] by simp
  show "96 \<le> body_temperature (df ! i) \<and> body_temperature (df ! i) \<le> 102"
    unfolding row using r(6) n s(8) round1_range[of 960 "v_body_temp L ! i" 1020] by simp
  have hr: "50 \<le> v_heart_rate_clipped L ! i \<and> v_heart_rate_clipped L ! i \<le> 120"
    using r(1) n s(3) by simp
  have ox: "85 \<le> v_blood_oxygen_clipped L ! i \<and> v_blood_oxygen_clipped L ! i \<le> 100"
    using r(2) n s(4) by simp
  note inj = generate_locals_injected[OF ok run]
  show "50 \<le> heart_rate (df ! i) \<and> heart_rate (df ! i) \<le> 120 \<and>
        85 \<le> blood_oxygen (df ! i) \<and> blood_oxygen (df ! i) \<le> 100"
    if "i \<notin> set (v_anomaly_indices L)"
  proof -
    have same: "v_heart_rate L ! i = v_heart_rate_clipped L ! i"
      "v_blood_oxygen L ! i = v_blood_oxygen_clipped L ! i"
      using inj(2) that by simp_all
    show ?thesis
      unfolding row same
      using hr ox py_int_bounds[of 50 "v_heart_rate_clipped L ! i" 120]
        round1_range[of 850 "v_blood_oxygen_clipped L ! i" 1000]
      by simp
  qed
  show "30 \<le> heart_rate (df ! i) \<and> heart_rate (df ! i) \<le> 150 \<and>
        71 \<le> blood_oxygen (df ! i) \<and> blood_oxygen (df ! i) \<le> 95"
    if "i \<in> set (v_anomaly_indices L)"
  proof -
    have a: "v_heart_rate L ! i = v_heart_rate_clipped L ! i - 20 \<or>
             v_heart_rate L ! i = v_heart_rate_clipped L ! i + 30"
      using inj(1) that by blast
    have "\<exists>d \<in> {5..14}. v_blood_oxygen L ! i = v_blood_oxygen_clipped L ! i - of_int d"
      using inj(1) that by blast
    then obtain d :: int where b: "5 \<le> d" "d \<le> 14"
        "v_blood_oxygen L ! i = v_blood_oxygen_clipped L ! i - of_int d"
      by auto
    have "30 \<le> v_heart_rate L ! i \<and> v_heart_rate L ! i \<le> 150" using a hr by auto
    then have 1: "30 \<le> heart_rate (df ! i) \<and> heart_rate (df ! i) \<le> 150"
      unfolding row using py_int_bounds[of 30 "v_heart_rate L ! i" 150] by simp
    have "real_of_int d \<ge> 5" "real_of_int d \<le> 14" using b(1,2) by simp_all
    then have "71 \<le> v_blood_oxygen L ! i \<and> v_blood_oxygen L ! i \<le> 95"
      using ox unfolding b(3) by linarith
    then have 2: "71 \<le> blood_oxygen (df ! i) \<and> blood_oxygen (df ! i) \<le> 95"
      unfolding row using round1_range[of 710 "v_blood_oxygen L ! i" 950] by simp
    show ?thesis using 1 2 by simp
  qed
qed

subsection \<open>Anomalies and domains\<close>

lemma np0_draws:
  "np_normal np0 loc scale n g = (z, g') \<Longrightarrow> z = replicate n loc"
  "np_choice np0 a k g = (idx, g') \<Longrightarrow> idx = [0..<k]"
  "np_choice_list np0 xs k g = (ys, g') \<Longrightarrow> ys = replicate k (last xs)"
  "np_randint np0 lo hi k g = (ds, g') \<Longrightarrow> ds = replicate k (hi - 1)"
  by (auto simp: np0_def)

lemma np0_run:
  obtains L df g' where
    "generate_locals np0 noon 1 24 0 = Inr L"
    "generate_sample_data np0 noon 1 24 0 = Inr (df, g')"
    "length df = 24"
    "v_anomaly_indices L = [0]"
    "v_blood_oxygen_clipped L ! 0 = 98"
    "v_blood_oxygen L ! 0 = 84"
    "blood_oxygen (df ! 0) = 84"
proof -
  obtain df g' where ret: "generate_sample_data np0 noon 1 24 0 = Inr (df, g')"
      and len: "length df = 24"
    using generate_sample_data_total[OF rng_ok_np0 dates_ok_noon(1), of 24 0] by auto
  from ret obtain L where run: "generate_locals np0 noon 1 24 0 = Inr L"
    and df: "DataFrame (v_timestamps L) (map py_int (v_heart_rate L))
           (map round1 (v_blood_oxygen L)) (map py_int (v_steps L))
           (map round1 (v_sleep_quality L)) (map round1 (v_stress_level L))
           (map round1 (v_body_temp L)) = Inr df"
    by (rule generate_sample_dataE)
  from run obtain g1 z2 g2 g6 g7 g8 dec where
    f: "np_normal np0 0 1 (nat (1 * 24)) g1 = (z2, g2)"
       "v_blood_oxygen_clipped L = np_clip (map (\<lambda>z. 98 + z) z2) 85 100"
       "np_choice np0 (nat (1 * 24)) (nat (py_int (0.05 * of_int (1 * 24)))) g6 =
          (v_anomaly_indices L, g7)"
       "np_randint np0 5 15 (length (v_anomaly_indices L)) g8 = (dec, v_rng L)"
       "fancy_iadd (v_blood_oxygen_clipped L) (v_anomaly_indices L) (map (\<lambda>d. - of_int d) dec) =
          Inr (v_blood_oxygen L)"
    by (rule generate_localsE)
  have "py_int (0.05 * of_int (1 * 24)) = (1 * 24) div 20"
    by (rule anomaly_count) simp
  then have k: "nat (py_int (0.05 * of_int (1 * 24))) = 1"
    by simp
  have idx: "v_anomaly_indices L = [0]"
    using np0_draws(2)[OF f(3)] unfolding k by simp
  have dec: "dec = [14]"
    using np0_draws(4)[OF f(4)] by (simp add: idx)
  have oxc: "v_blood_oxygen_clipped L ! 0 = 98"
    unfolding f(2) np0_draws(1)[OF f(1)] by (simp add: np_clip_def)
  have "v_blood_oxygen L ! (v_anomaly_indices L ! 0) =
        v_blood_oxygen_clipped L ! (v_anomaly_indices L ! 0) + map (\<lambda>d. - of_int d) dec ! 0"
    using fancy_iadd_Inr(3)[OF f(5)] by (simp add: idx dec)
  then have ox: "v_blood_oxygen L ! 0 = 84"
    by (simp add: idx dec oxc)
  have "length (v_timestamps L) = 24"
    using DataFrame_Inr(1)[OF df] len by simp
  then have "blood_oxygen (df ! 0) = round1 (v_blood_oxygen L ! 0)"
    using DataFrame_Inr(2)[OF df] generate_locals_shape(10)[OF rng_ok_np0 run] by simp
  then have "blood_oxygen (df ! 0) = 84"
    by (simp add: ox round1_def rint_def)
  with run ret len idx oxc ox show ?thesis by (rule that)
qed

text \<open>
  C2, as stated, fails: when the generator draws no noise and the largest decrease, the
  first sample of a one-day, 24-sample dataset has \<^verbatim>\<open>blood_oxygen\<close> 84, below 85.
\<close>

theorem generated_domain_counterexample:
  "\<not> isl (generate_sample_data np0 noon 1 24 0) \<and>
   blood_oxygen (fst (projr (generate_sample_data np0 noon 1 24 0)) ! 0) = 84"
proof -
  obtain L :: "nat locals" and df :: dataset and g' :: nat where "generate_sample_data np0 noon 1 24 0 = Inr (df, g')"
    "blood_oxygen (df ! 0) = 84"
    by (rule np0_run)
  then show ?thesis by simp
qed

text \<open>
  C2, amended. In every dataset that \<^verbatim>\<open>generate_sample_data\<close> returns,
  \<^verbatim>\<open>steps\<close> is at least 0, \<^verbatim>\<open>sleep_quality\<close> and \<^verbatim>\<open>stress_level\<close> lie in
  \<open>[0, 10]\<close> and \<^verbatim>\<open>body_temperature\<close> in \<open>[96, 102]\<close>; a sample that was not selected
  for an anomaly has \<^verbatim>\<open>heart_rate\<close> in \<open>[50, 120]\<close> and \<^verbatim>\<open>blood_oxygen\<close> in
  \<open>[85, 100]\<close>; a selected sample is not clamped again and has \<^verbatim>\<open>heart_rate\<close> in
  \<open>[30, 150]\<close> and \<^verbatim>\<open>blood_oxygen\<close> in \<open>[71, 95]\<close>.
\<close>

theorem generated_domains:
  assumes "rng_ok np" and "generate_locals np now days samples_per_day g = Inr L"
    and "generate_sample_data np now days samples_per_day g = Inr (df, g')"
  shows "\<forall>i < length df.
     0 \<le> steps (df ! i) \<and>
     0 \<le> sleep_quality (df ! i) \<and> sleep_quality (df ! i) \<le> 10 \<and>
     0 \<le> stress_level (df ! i) \<and> stress_level (df ! i) \<le> 10 \<and>
     96 \<le> body_temperature (df ! i) \<and> body_temperature (df ! i) \<le> 102 \<and>
     (i \<notin> set (v_anomaly_indices L) \<longrightarrow>
        50 \<le> heart_rate (df ! i) \<and> heart_rate (df ! i) \<le> 120 \<and>
        85 \<le> blood_oxygen (df ! i) \<and> blood_oxygen (df ! i) \<le> 100) \<and>
     (i \<in> set (v_anomaly_indices L) \<longrightarrow>
        30 \<le> heart_rate (df ! i) \<and> heart_rate (df ! i) \<le> 150 \<and>
        71 \<le> blood_oxygen (df ! i) \<and> blood_oxygen (df ! i) \<le> 95)"
proof (intro allI impI)
  fix i assume i: "i < length df"
  note g = generated_rows[OF assms i]
  show "0 \<le> steps (df ! i) \<and>
     0 \<le> sleep_quality (df ! i) \<and> sleep_quality (df ! i) \<le> 10 \<and>
     0 \<le> stress_level (df ! i) \<and> stress_level (df ! i) \<le> 10 \<and>
     96 \<le> body_temperature (df ! i) \<and> body_temperature (df ! i) \<le> 102 \<and>
     (i \<notin> set (v_anomaly_indices L) \<longrightarrow>
        50 \<le> heart_rate (df ! i) \<and> heart_rate (df ! i) \<le> 120 \<and>
        85 \<le> blood_oxygen (df ! i) \<and> blood_oxygen (df ! i) \<le> 100) \<and>
     (i \<in> set (v_anomaly_indices L) \<longrightarrow>
        30 \<le> heart_rate (df ! i) \<and> heart_rate (df ! i) \<le> 150 \<and>
        71 \<le> blood_oxygen (df ! i) \<and> blood_oxygen (df ! i) \<le> 95)"
    using g(1,2,3,4) g(5) g(6) by blast
qed

theorem generated_domains_witness:
  "\<exists>L df g'. rng_ok np0 \<and> generate_locals np0 noon 1 24 0 = Inr L \<and>
     generate_sample_data np0 noon 1 24 0 = Inr (df, g') \<and> length df = 24 \<and>
     0 \<in> set (v_anomaly_indices L) \<and> 1 \<notin> set (v_anomaly_indices L) \<and>
     30 \<le> heart_rate (df ! 0) \<and> heart_rate (df ! 0) \<le> 150 \<and> blood_oxygen (df ! 0) = 84 \<and>
     50 \<le> heart_rate (df ! 1) \<and> heart_rate (df ! 1) \<le> 120 \<and>
     85 \<le> blood_oxygen (df ! 1) \<and> blood_oxygen (df ! 1) \<le> 100 \<and>
     0 \<le> steps (df ! 1)"
proof -
  obtain L :: "nat locals" and df :: dataset and g' :: nat where r: "generate_locals np0 noon 1 24 0 = Inr L"
    "generate_sample_data np0 noon 1 24 0 = Inr (df, g')"
    "length df = 24" "v_anomaly_indices L = [0]" "blood_oxygen (df ! 0) = 84"
    by (rule np0_run)
  note t = generated_domains[OF rng_ok_np0 r(1,2), rule_format]
  from t[of 0] t[of 1] r(3,4)
  have "30 \<le> heart_rate (df ! 0) \<and> heart_rate (df ! 0) \<le> 150 \<and>
     50 \<le> heart_rate (df ! 1) \<and> heart_rate (df ! 1) \<le> 120 \<and>
     85 \<le> blood_oxygen (df ! 1) \<and> blood_oxygen (df ! 1) \<le> 100 \<and>
     0 \<le> steps (df ! 1)"
    by simp
  then show ?thesis using r rng_ok_np0 by auto
qed

text \<open>
  C5, as stated, fails: for 24 samples one index is selected, not
  \<open>\<lceil>0.05 * 24\<rceil> = 2\<close>.
\<close>

theorem anomaly_count_counterexample:
  "\<not> isl (generate_locals np0 noon 1 24 0) \<and>
   length (v_anomaly_indices (projr (generate_locals np0 noon 1 24 0))) = 1 \<and>
   \<lceil>0.05 * (24 :: real)\<rceil> = 2"
proof -
  obtain L :: "nat locals" and df :: dataset and g' :: nat where "generate_locals np0 noon 1 24 0 = Inr L" "v_anomaly_indices L = [0]"
    by (rule np0_run)
  then show ?thesis by simp
qed

text \<open>
  C5, amended. \<^verbatim>\<open>generate_sample_data\<close> selects exactly
  \<open>\<lfloor>0.05 * total_samples\<rfloor>\<close> distinct sample indices; at each selected index
  \<^verbatim>\<open>heart_rate\<close> is shifted by \<open>-20\<close> or by \<open>+30\<close> and \<^verbatim>\<open>blood_oxygen\<close> is decreased
  by an integer from 5 to 14; at every other index both are left as they were.
\<close>

theorem anomaly_injection:
  assumes "rng_ok np" and "generate_locals np now days samples_per_day g = Inr L"
  shows "length (v_anomaly_indices L) = nat \<lfloor>0.05 * real_of_int (days * samples_per_day)\<rfloor> \<and>
     distinct (v_anomaly_indices L) \<and>
     (\<forall>i \<in> set (v_anomaly_indices L).
        i < nat (days * samples_per_day) \<and>
        (v_heart_rate L ! i = v_heart_rate_clipped L ! i - 20 \<or>
         v_heart_rate L ! i = v_heart_rate_clipped L ! i + 30) \<and>
        (\<exists>d \<in> {5..14}. v_blood_oxygen L ! i = v_blood_oxygen_clipped L ! i - of_int d)) \<and>
     (\<forall>i. i \<notin> set (v_anomaly_indices L) \<longrightarrow>
        v_heart_rate L ! i = v_heart_rate_clipped L ! i \<and>
        v_blood_oxygen L ! i = v_blood_oxygen_clipped L ! i)"
proof -
  note s = generate_locals_shape[OF assms]
  note inj = generate_locals_injected[OF assms]
  have "length (v_anomaly_indices L) = nat \<lfloor>0.05 * real_of_int (days * samples_per_day)\<rfloor>"
    unfolding floor_count by (rule s(11))
  then show ?thesis using s(12,13) inj by blast
qed

theorem anomaly_injection_witness:
  "\<exists>L. rng_ok np0 \<and> generate_locals np0 noon 1 24 0 = Inr L \<and>
     v_anomaly_indices L = [0] \<and> v_blood_oxygen_clipped L ! 0 = 98 \<and>
     v_blood_oxygen L ! 0 = 84 \<and>
     (v_heart_rate L ! 0 = v_heart_rate_clipped L ! 0 - 20 \<or>
      v_heart_rate L ! 0 = v_heart_rate_clipped L ! 0 + 30) \<and>
     v_heart_rate L ! 1 = v_heart_rate_clipped L ! 1"
proof -
  obtain L :: "nat locals" and df :: dataset and g' :: nat where r: "generate_locals np0 noon 1 24 0 = Inr L"
    "v_anomaly_indices L = [0]" "v_blood_oxygen_clipped L ! 0 = 98" "v_blood_oxygen L ! 0 = 84"
    by (rule np0_run)
  from anomaly_injection[OF rng_ok_np0 r(1)] r(2)
  have "(v_heart_rate L ! 0 = v_heart_rate_clipped L ! 0 - 20 \<or>
      v_heart_rate L ! 0 = v_heart_rate_clipped L ! 0 + 30) \<and>
     v_heart_rate L ! 1 = v_heart_rate_clipped L ! 1"
    by simp
  then show ?thesis using r rng_ok_np0 by auto
qed

end
